theory Spec2Isabelle
  imports Main "HOL-Library.Extended_Nat"
begin

section \<open>Block range planner (src/store/Network.ts, lines 37-51)\<close>

text \<open>
  Block heights are JavaScript numbers holding non-negative integers (they come from
  \<^verbatim>\<open>block.height.compact()\<close>), so a height is a \<open>nat\<close>: below 2^53 the additions and
  comparisons of the source are exact. \<^verbatim>\<open>Math.min(...heights)\<close> of an empty array is
  \<^verbatim>\<open>Infinity\<close>, so the start of a range is an \<open>enat\<close>.
\<close>

record BlockRangeType =
  start :: enat

fun Math_min :: "nat list \<Rightarrow> enat" where
  "Math_min [] = \<infinity>"
| "Math_min (h # hs) = min (enat h) (Math_min hs)"

definition pageSize :: nat where
  "pageSize = 100"

function (domintros) getBlockRanges :: "nat list \<Rightarrow> BlockRangeType list" where
  "getBlockRanges heights =
     (let ranges = [\<lparr>start = Math_min heights\<rparr>];
          heights' = filter (\<lambda>h. enat h > Math_min heights + enat pageSize) heights
      in if heights' \<noteq> [] then ranges @ getBlockRanges heights' else ranges)"
  by pat_completeness auto

termination getBlockRanges
proof (relation "measure length")
  show "wf (measure length)" by simp
next
  fix heights :: "nat list" and ranges :: "BlockRangeType list" and heights' :: "nat list"
  assume h': "heights' = filter (\<lambda>h. enat h > Math_min heights + enat pageSize) heights"
    and ne: "heights' \<noteq> []"
  have mem: "hs \<noteq> [] \<Longrightarrow> \<exists>m \<in> set hs. Math_min hs = enat m" for hs
  proof (induction hs)
    case Nil
    then show ?case by simp
  next
    case (Cons a hs)
    then show ?case by (cases "hs = []") (auto simp: min_def)
  qed
  from h' ne have "heights \<noteq> []" by auto
  then obtain m where m: "m \<in> set heights" "Math_min heights = enat m"
    using mem by blast
  then have "\<not> enat m > Math_min heights + enat pageSize" by simp
  with m(1) have "length heights' < length heights"
    unfolding h' by (metis (mono_tags, lifting) length_filter_less)
  then show "(heights', heights) \<in> measure length" by simp
qed


declare getBlockRanges.simps [simp del]

section \<open>Values, errors and collaborators\<close>

text \<open>
  A thrown JavaScript value. \<open>Error msg\<close> is \<^verbatim>\<open>Error(msg)\<close>, as thrown at lines 216 and
  230 and by a failing transport call; \<open>TypeError msg\<close> is what the runtime throws when a
  value that is not a function is called.
\<close>

datatype error = Error string | TypeError string

text \<open>
  \<^verbatim>\<open>URLHelpers.formatUrl\<close> returns an object of which this module reads the field
  \<^verbatim>\<open>url\<close> only (lines 109, 167, 305).
\<close>

record PeerEndpoint =
  url :: string

text \<open>
  \<^verbatim>\<open>URLHelpers\<close> (\<^verbatim>\<open>@/core/utils/URLHelpers\<close>) is imported, not defined here: its three
  functions are parameters of the model.
\<close>

record URLHelpers =
  isValidURL :: "string \<Rightarrow> bool"
  formatUrl :: "string \<Rightarrow> PeerEndpoint"
  httpToWsUrl :: "string \<Rightarrow> string"

text \<open>
  The four members of the SDK's \<^verbatim>\<open>NetworkType\<close> enum. A value received from a node is
  \<open>Some t\<close> for a member and \<open>None\<close> for any other value.
\<close>

datatype NetworkType = MIJIN_TEST | MIJIN | TEST_NET | MAIN_NET

text \<open>
  Of a \<^verbatim>\<open>BlockInfo\<close> the module reads \<^verbatim>\<open>height.compact()\<close> (line 135); \<open>hash\<close> stands
  for the rest of the block.
\<close>

record BlockInfo =
  height :: nat
  hash :: string

text \<open>
  \<^verbatim>\<open>RESTService\<close> (\<^verbatim>\<open>@/services/RESTService\<close>) is imported, not defined here. Each call
  is a parameter that gives, for the node url it is made against, either the thrown error
  (a rejected promise) or the value: \<open>create name url\<close> is \<open>Some e\<close> when
  \<^verbatim>\<open>RESTService.create(name, url)\<close> throws \<open>e\<close>; \<open>getBlockchainHeight\<close> gives the height
  already compacted to a number; \<open>getBlocksByHeightWithLimit url start limit\<close> is the page
  requested at line 310.
\<close>

record 'info RESTService =
  create :: "string \<Rightarrow> string \<Rightarrow> error option"
  getNetworkType :: "string \<Rightarrow> error + NetworkType option"
  getNodeInfo :: "string \<Rightarrow> error + 'info"
  getBlockchainHeight :: "string \<Rightarrow> error + nat"
  getBlocksByHeightWithLimit :: "string \<Rightarrow> enat \<Rightarrow> nat \<Rightarrow> error + BlockInfo list"

section \<open>The store's state (lines 70-86)\<close>

text \<open>
  One field per entry of \<^verbatim>\<open>state\<close> that an action or mutation of this file reads or
  writes, and \<^verbatim>\<open>currentPeerInfo\<close>, which the mutation of line 105 adds (\<open>None\<close> is
  \<^verbatim>\<open>undefined\<close>). \<^verbatim>\<open>knownPeers\<close> is an array: \<open>None\<close> is the hole that
  \<^verbatim>\<open>delete knownPeers[idx]\<close> leaves. \<^verbatim>\<open>knownBlocks\<close> is the object \<^verbatim>\<open>{}\<close>, keyed by
  height. \<^verbatim>\<open>config\<close> and \<^verbatim>\<open>nemesisTransactions\<close> are written by nothing modelled here
  and are left out.
\<close>

record ('info, 'sub) NetworkState =
  initialized :: bool
  wsEndpoint :: string
  defaultPeer :: PeerEndpoint
  currentPeer :: PeerEndpoint
  explorerUrl :: string
  networkType :: NetworkType
  generationHash :: string
  isConnected :: bool
  knownPeers :: "string option list"
  currentHeight :: nat
  currentPeerInfo :: "'info option"
  knownBlocks :: "nat \<rightharpoonup> BlockInfo"
  subscriptions :: "'sub list"

text \<open>
  What an action does besides changing the state and returning, in the order it happens:
  \<^item> \<open>ConsoleLog\<close>: \<^verbatim>\<open>console.log\<close> or \<^verbatim>\<open>console.error\<close>, with the fixed part of the message;
  \<^item> \<open>Emit name payload\<close>: \<^verbatim>\<open>$eventBus.$emit\<close>;
  \<^item> \<open>Dispatch name\<close>: an asynchronous action started and not awaited;
  \<^item> \<open>CloseSubscription s\<close>: the channels of \<open>s\<close> unsubscribed and its listener closed;
  \<^item> \<open>Request url start limit\<close>: \<^verbatim>\<open>getBlocksByHeightWithLimit\<close> called on the node;
  \<^item> \<open>UnhandledRejection e\<close>: a promise nobody awaits is rejected with \<open>e\<close>;
  \<^item> \<open>SetInterval ms payload\<close>: a timer that, every \<open>ms\<close> milliseconds, dispatches
    \<^verbatim>\<open>REST_FETCH_BLOCKS\<close> with \<open>payload\<close>.
\<close>

datatype 'sub effect =
    ConsoleLog string
  | Emit string string
  | Dispatch string
  | CloseSubscription 'sub
  | Request string enat nat
  | UnhandledRejection error
  | SetInterval nat "BlockRangeType list"

text \<open>
  An action run to its return: what it returned or threw (for an \<^verbatim>\<open>async\<close> action, what
  its promise settles with), the state then, and the effects.
\<close>

type_synonym ('r, 'info, 'sub) run =
  "(error + 'r) \<times> ('info, 'sub) NetworkState \<times> 'sub effect list"

definition outcome_of :: "('r, 'info, 'sub) run \<Rightarrow> error + 'r" where
  "outcome_of r = fst r"

definition state_of :: "('r, 'info, 'sub) run \<Rightarrow> ('info, 'sub) NetworkState" where
  "state_of r = fst (snd r)"

definition effects_of :: "('r, 'info, 'sub) run \<Rightarrow> 'sub effect list" where
  "effects_of r = snd (snd r)"

section \<open>Mutations (lines 101-163)\<close>

definition commit_setInitialized ::
  "('info, 'sub) NetworkState \<Rightarrow> bool \<Rightarrow> ('info, 'sub) NetworkState" where
  "commit_setInitialized st b = st\<lparr>initialized := b\<rparr>"

definition commit_setConnected ::
  "('info, 'sub) NetworkState \<Rightarrow> bool \<Rightarrow> ('info, 'sub) NetworkState" where
  "commit_setConnected st b = st\<lparr>isConnected := b\<rparr>"

definition commit_currentHeight ::
  "('info, 'sub) NetworkState \<Rightarrow> nat \<Rightarrow> ('info, 'sub) NetworkState" where
  "commit_currentHeight st h = st\<lparr>currentHeight := h\<rparr>"

definition commit_currentPeerInfo ::
  "('info, 'sub) NetworkState \<Rightarrow> 'info \<Rightarrow> ('info, 'sub) NetworkState" where
  "commit_currentPeerInfo st info = st\<lparr>currentPeerInfo := Some info\<rparr>"

text \<open>The payload \<open>None\<close> is \<^verbatim>\<open>undefined\<close> (line 107).\<close>

definition commit_currentPeer ::
  "URLHelpers \<Rightarrow> ('info, 'sub) NetworkState \<Rightarrow> string option \<Rightarrow> ('info, 'sub) NetworkState" where
  "commit_currentPeer U st payload =
     (case payload of
        None \<Rightarrow> st
      | Some p \<Rightarrow>
          (let currentPeer' = formatUrl U p;
               wsEndpoint' = httpToWsUrl U (url currentPeer')
           in st\<lparr>currentPeer := currentPeer', wsEndpoint := wsEndpoint'\<rparr>))"

definition commit_addPeer ::
  "('info, 'sub) NetworkState \<Rightarrow> string \<Rightarrow> ('info, 'sub) NetworkState" where
  "commit_addPeer st peerUrl = st\<lparr>knownPeers := knownPeers st @ [Some peerUrl]\<rparr>"

text \<open>
  \<^verbatim>\<open>Array.prototype.findIndex(predicate)\<close>: when \<open>predicate\<close> is not callable it throws a
  TypeError before it looks at the array; otherwise it returns the index of the first
  element that satisfies \<open>predicate\<close>, or -1. An argument is a string or a function.
\<close>

datatype 'a js_arg = JSString string | JSFunction "'a \<Rightarrow> bool"

fun findIndex_from :: "('a \<Rightarrow> bool) \<Rightarrow> 'a list \<Rightarrow> int \<Rightarrow> int" where
  "findIndex_from p [] k = - 1"
| "findIndex_from p (x # xs) k = (if p x then k else findIndex_from p xs (k + 1))"

definition findIndex :: "'a js_arg \<Rightarrow> 'a list \<Rightarrow> error + int" where
  "findIndex predicate xs =
     (case predicate of
        JSFunction p \<Rightarrow> Inr (findIndex_from p xs 0)
      | JSString s \<Rightarrow> Inl (TypeError (s @ '' is not a function'')))"

text \<open>
  \<^verbatim>\<open>delete xs[idx]\<close>: an index of the array becomes a hole; any other \<open>idx\<close> names no
  property, and nothing changes.
\<close>

definition delete_index :: "'a option list \<Rightarrow> int \<Rightarrow> 'a option list" where
  "delete_index xs idx =
     (if 0 \<le> idx \<and> idx < int (length xs) then xs[nat idx := None] else xs)"

text \<open>
  Lines 119-128. \<open>idx\<close> is a number, so the test \<^verbatim>\<open>idx === undefined\<close> of line 121 is
  false whenever line 120 returns.
\<close>

definition commit_removePeer ::
  "('info, 'sub) NetworkState \<Rightarrow> string option js_arg \<Rightarrow> error + ('info, 'sub) NetworkState" where
  "commit_removePeer st peerUrl =
     (case findIndex peerUrl (knownPeers st) of
        Inl e \<Rightarrow> Inl e
      | Inr idx \<Rightarrow> Inr (st\<lparr>knownPeers := delete_index (knownPeers st) idx\<rparr>))"

definition commit_addBlock ::
  "('info, 'sub) NetworkState \<Rightarrow> BlockInfo \<Rightarrow> ('info, 'sub) NetworkState" where
  "commit_addBlock st block = st\<lparr>knownBlocks := (knownBlocks st)(height block \<mapsto> block)\<rparr>"

definition commit_networkType ::
  "('info, 'sub) NetworkState \<Rightarrow> NetworkType option \<Rightarrow> ('info, 'sub) NetworkState" where
  "commit_networkType st type =
     (case type of
        Some t \<Rightarrow> st\<lparr>networkType := t\<rparr>
      | None \<Rightarrow> st\<lparr>networkType := MIJIN_TEST\<rparr>)"

definition commit_setSubscriptions ::
  "('info, 'sub) NetworkState \<Rightarrow> 'sub list \<Rightarrow> ('info, 'sub) NetworkState" where
  "commit_setSubscriptions st data = st\<lparr>subscriptions := data\<rparr>"


section \<open>Actions: connection lifecycle (lines 165-246, 264-279)\<close>

text \<open>
  \<^verbatim>\<open>RESET_PEERS\<close> and the body of \<^verbatim>\<open>SUBSCRIBE\<close> are left out: they read the
  configuration file and \<^verbatim>\<open>RESTService.subscribeBlocks\<close>, and nothing below depends on
  them.
\<close>

text \<open>
  Modelled from the spec: \<^verbatim>\<open>AwaitLock\<close> (\<^verbatim>\<open>./AwaitLock\<close>) is imported, not defined here.
  The spec's lock executes the operation exclusively and does not catch its failure; in
  this sequential model, where one action runs at a time, that is running the callback.
\<close>

definition Lock_initialize ::
  "(('info, 'sub) NetworkState \<Rightarrow> (unit, 'info, 'sub) run) \<Rightarrow>
   ('info, 'sub) NetworkState \<Rightarrow> (unit, 'info, 'sub) run" where
  "Lock_initialize callback st = callback st"

text \<open>
  Modelled from the spec: the same lock, for the flow named \<^verbatim>\<open>uninitialize\<close>.
\<close>

definition Lock_uninitialize ::
  "(('info, 'sub) NetworkState \<Rightarrow> (unit, 'info, 'sub) run) \<Rightarrow>
   ('info, 'sub) NetworkState \<Rightarrow> (unit, 'info, 'sub) run" where
  "Lock_uninitialize callback st = callback st"

text \<open>The \<^verbatim>\<open>catch\<close> of lines 198-200: log, and fall out of the callback normally.\<close>

definition initialize_catch ::
  "('info, 'sub) NetworkState \<Rightarrow> 'sub effect list \<Rightarrow> error \<Rightarrow> (unit, 'info, 'sub) run" where
  "initialize_catch st effs e =
     (Inr (), st, effs @ [ConsoleLog ''Error in Store network/initialize: ''])"

text \<open>
  The callback of lines 166-201. Every step inside \<^verbatim>\<open>try\<close> that fails goes to the
  \<^verbatim>\<open>catch\<close> with the state as it is then. \<^verbatim>\<open>dispatch('SUBSCRIBE')\<close> is not awaited: the
  action is started, and what it commits comes after the callback has returned.
\<close>

definition initialize_callback ::
  "URLHelpers \<Rightarrow> 'info RESTService \<Rightarrow> ('info, 'sub) NetworkState \<Rightarrow> (unit, 'info, 'sub) run" where
  "initialize_callback U R st =
     (let nodeUrl = url (currentPeer st);
          effs0 = [ConsoleLog ''network/initialize: nodeUrl: '']
      in case create R ''NetworkHttp'' nodeUrl of
           Some e \<Rightarrow> initialize_catch st effs0 e
         | None \<Rightarrow>
      (case create R ''ChainHttp'' nodeUrl of
           Some e \<Rightarrow> initialize_catch st effs0 e
         | None \<Rightarrow>
      (case create R ''NodeHttp'' nodeUrl of
           Some e \<Rightarrow> initialize_catch st effs0 e
         | None \<Rightarrow>
      (case getNetworkType R nodeUrl of
           Inl e \<Rightarrow> initialize_catch st effs0 e
         | Inr networkType' \<Rightarrow>
      (let st1 = commit_setConnected (commit_currentPeer U st (Some nodeUrl)) True;
           effs1 = effs0 @ [Emit ''newConnection'' nodeUrl]
       in case getNodeInfo R nodeUrl of
            Inl e \<Rightarrow> initialize_catch st1 effs1 e
          | Inr peerInfo \<Rightarrow>
      (case getBlockchainHeight R nodeUrl of
            Inl e \<Rightarrow> initialize_catch st1 effs1 e
          | Inr currentHeight' \<Rightarrow>
      (let effs2 = effs1 @ [ConsoleLog ''network/initialize: peerInfo: '',
                            ConsoleLog ''network/initialize: currentHeight: ''];
           st2 = commit_networkType st1 networkType';
           st3 = commit_currentHeight st2 currentHeight';
           st4 = commit_currentPeerInfo st3 peerInfo;
           st5 = commit_setInitialized st4 True
       in (Inr (), st5, effs2 @ [Dispatch ''SUBSCRIBE'']))))))))"

definition initialize ::
  "URLHelpers \<Rightarrow> 'info RESTService \<Rightarrow> ('info, 'sub) NetworkState \<Rightarrow> (unit, 'info, 'sub) run" where
  "initialize U R st = Lock_initialize (initialize_callback U R) st"

definition RESET_SUBSCRIPTIONS :: "('info, 'sub) NetworkState \<Rightarrow> (unit, 'info, 'sub) run" where
  "RESET_SUBSCRIPTIONS st = (Inr (), commit_setSubscriptions st [], [])"

definition UNSUBSCRIBE :: "('info, 'sub) NetworkState \<Rightarrow> (unit, 'info, 'sub) run" where
  "UNSUBSCRIBE st =
     (let closed = map CloseSubscription (subscriptions st)
      in case RESET_SUBSCRIPTIONS st of (r, st', effs) \<Rightarrow> (r, st', closed @ effs))"

definition uninitialize_callback :: "('info, 'sub) NetworkState \<Rightarrow> (unit, 'info, 'sub) run" where
  "uninitialize_callback st =
     (case UNSUBSCRIBE st of (r, st', effs) \<Rightarrow> (Inr (), commit_setInitialized st' False, effs))"

definition uninitialize :: "('info, 'sub) NetworkState \<Rightarrow> (unit, 'info, 'sub) run" where
  "uninitialize st = Lock_uninitialize uninitialize_callback st"

definition SET_CURRENT_PEER ::
  "URLHelpers \<Rightarrow> 'info RESTService \<Rightarrow> ('info, 'sub) NetworkState \<Rightarrow> string \<Rightarrow>
   (unit, 'info, 'sub) run" where
  "SET_CURRENT_PEER U R st currentPeerUrl =
     (if \<not> isValidURL U currentPeerUrl
      then (Inl (Error (''Cannot change node. URL is not valid: '' @ currentPeerUrl)), st, [])
      else
        (let st1 = commit_currentPeer U st (Some currentPeerUrl);
             st2 = commit_setConnected st1 False;
             st3 = commit_setInitialized st2 False
         in case uninitialize st3 of
              (Inl e, st4, effs4) \<Rightarrow> (Inl e, st4, effs4)
            | (Inr u, st4, effs4) \<Rightarrow>
                (case initialize U R st4 of (r, st5, effs5) \<Rightarrow> (r, st5, effs4 @ effs5))))"

definition ADD_KNOWN_PEER ::
  "URLHelpers \<Rightarrow> ('info, 'sub) NetworkState \<Rightarrow> string \<Rightarrow> (unit, 'info, 'sub) run" where
  "ADD_KNOWN_PEER U st peerUrl =
     (if \<not> isValidURL U peerUrl
      then (Inl (Error (''Cannot add node. URL is not valid: '' @ peerUrl)), st, [])
      else (Inr (), commit_addPeer st peerUrl, []))"

text \<open>A mutation that throws makes \<^verbatim>\<open>commit\<close>, and so the action, throw.\<close>

definition REMOVE_KNOWN_PEER ::
  "('info, 'sub) NetworkState \<Rightarrow> string option js_arg \<Rightarrow> (unit, 'info, 'sub) run" where
  "REMOVE_KNOWN_PEER st peerUrl =
     (case commit_removePeer st peerUrl of
        Inl e \<Rightarrow> (Inl e, st, [])
      | Inr st' \<Rightarrow> (Inr (), st', []))"

definition SET_CURRENT_HEIGHT ::
  "('info, 'sub) NetworkState \<Rightarrow> nat \<Rightarrow> (unit, 'info, 'sub) run" where
  "SET_CURRENT_HEIGHT st h = (Inr (), commit_currentHeight st h, [])"

definition ADD_BLOCK ::
  "('info, 'sub) NetworkState \<Rightarrow> BlockInfo \<Rightarrow> (unit, 'info, 'sub) run" where
  "ADD_BLOCK st block = (Inr (), commit_addBlock st block, [])"

section \<open>Action: fetching blocks (lines 280-322)\<close>

text \<open>
  \<^verbatim>\<open>Array.prototype.filter\<close> and \<^verbatim>\<open>map\<close> with a callback that may throw: the first throw
  ends the loop and leaves the call.
\<close>

fun filter_js :: "('a \<Rightarrow> error + bool) \<Rightarrow> 'a list \<Rightarrow> error + 'a list" where
  "filter_js p [] = Inr []"
| "filter_js p (x # xs) =
     (case p x of
        Inl e \<Rightarrow> Inl e
      | Inr b \<Rightarrow>
          (case filter_js p xs of
             Inl e \<Rightarrow> Inl e
           | Inr ys \<Rightarrow> Inr (if b then x # ys else ys)))"

fun map_js :: "('a \<Rightarrow> error + 'b) \<Rightarrow> 'a list \<Rightarrow> error + 'b list" where
  "map_js f [] = Inr []"
| "map_js f (x # xs) =
     (case f x of
        Inl e \<Rightarrow> Inl e
      | Inr y \<Rightarrow>
          (case map_js f xs of
             Inl e \<Rightarrow> Inl e
           | Inr ys \<Rightarrow> Inr (y # ys)))"

text \<open>
  \<^verbatim>\<open>knownBlocks.find(height)\<close> calls the property \<^verbatim>\<open>find\<close> of the object. What that
  property does is a parameter of the action's model: a \<open>find_method\<close> gives, for the
  object and the argument, the error thrown or the value returned (\<open>None\<close> is
  \<^verbatim>\<open>undefined\<close>).
\<close>

type_synonym find_method = "(nat \<rightharpoonup> BlockInfo) \<Rightarrow> nat \<Rightarrow> error + BlockInfo option"

text \<open>
  The store's \<^verbatim>\<open>knownBlocks\<close> is the object literal \<^verbatim>\<open>{}\<close> of line 83, and the only
  mutation that writes it (line 135) assigns properties named by numbers. Such an object
  has no property \<^verbatim>\<open>find\<close>, so \<^verbatim>\<open>knownBlocks.find\<close> is \<^verbatim>\<open>undefined\<close> and calling it
  throws a TypeError. (An array's \<^verbatim>\<open>find\<close> called with a number throws a TypeError as
  well.)
\<close>

definition object_find :: find_method where
  "object_find knownBlocks' h = Inl (TypeError ''knownBlocks.find is not a function'')"

text \<open>
  The lookup by height that the comments of lines 282 and 286 describe. The store's
  object does not have it; it is here to run the rest of the action.
\<close>

definition lookup_find :: find_method where
  "lookup_find knownBlocks' h = Inr (knownBlocks' h)"

definition defined_values :: "'a option list \<Rightarrow> 'a list" where
  "defined_values xs = concat (map (\<lambda>x. case x of None \<Rightarrow> [] | Some v \<Rightarrow> [v]) xs)"

text \<open>What \<^verbatim>\<open>return blocks\<close> (line 316) and \<^verbatim>\<open>return false\<close> (line 320) return.\<close>

datatype fetch_result = Blocks "BlockInfo list" | ReturnFalse

text \<open>
  The promise of one callback of line 309, after the action has returned: a page that
  arrives is concatenated into the variable \<^verbatim>\<open>blocks\<close>, which nothing returns any
  more; a request that fails rejects a promise that nobody awaits.
\<close>

definition settle_page :: "error + BlockInfo list \<Rightarrow> 'sub effect list" where
  "settle_page page = (case page of Inl e \<Rightarrow> [UnhandledRejection e] | Inr blocks \<Rightarrow> [])"

text \<open>
  Lines 280-322, for a given \<^verbatim>\<open>find\<close>.
  \<^item> Lines 284-289 are outside \<^verbatim>\<open>try\<close>: a throw there leaves the action.
  \<^item> Line 295 assigns the first three ranges to \<^verbatim>\<open>ranges\<close> before the timer of line
    298 is set, and the timer's function reads the variable \<^verbatim>\<open>ranges\<close> when it fires:
    its payload is \<^verbatim>\<open>slice(3)\<close> of the three ranges kept.
  \<^item> The callbacks of line 309 are \<^verbatim>\<open>async\<close> and their promises are not awaited: each
    issues its request and is suspended at its \<^verbatim>\<open>await\<close>, and lines 315-316 run before
    any of them resumes. So the blocks committed and returned are those of line 287, and
    a request that fails does not reach the \<^verbatim>\<open>catch\<close> of line 318.
\<close>

definition REST_FETCH_BLOCKS_with ::
  "find_method \<Rightarrow> 'info RESTService \<Rightarrow> ('info, 'sub) NetworkState \<Rightarrow> nat list \<Rightarrow>
   (fetch_result, 'info, 'sub) run" where
  "REST_FETCH_BLOCKS_with find_m R st blockHeights =
     (let knownBlocks' = knownBlocks st
      in case filter_js (\<lambda>h. case find_m knownBlocks' h of
                                Inl e \<Rightarrow> Inl e
                              | Inr v \<Rightarrow> Inr (v = None)) blockHeights of
           Inl e \<Rightarrow> (Inl e, st, [])
         | Inr heights \<Rightarrow>
      (case filter_js (\<lambda>h. case find_m knownBlocks' h of
                                Inl e \<Rightarrow> Inl e
                              | Inr v \<Rightarrow> Inr (v \<noteq> None)) blockHeights of
           Inl e \<Rightarrow> (Inl e, st, [])
         | Inr known \<Rightarrow>
      (case map_js (find_m knownBlocks') known of
           Inl e \<Rightarrow> (Inl e, st, [])
         | Inr found \<Rightarrow>
      (let blocks = defined_values found;
           planned = getBlockRanges heights;
           ranges = (if length planned > 3 then take 3 planned else planned);
           timers = (if length planned > 3 then [SetInterval 3000 (drop 3 ranges)] else []);
           currentPeer' = url (currentPeer st)
       in case create R ''BlockHttp'' currentPeer' of
            Some e \<Rightarrow>
              (Inr ReturnFalse, st,
               timers @ [ConsoleLog ''An error happened while trying to fetch account information: ''])
          | None \<Rightarrow>
              (let requests = map (\<lambda>r. Request currentPeer' (start r) 100) ranges;
                   settled = concat (map (\<lambda>r. settle_page
                               (getBlocksByHeightWithLimit R currentPeer' (start r) 100)) ranges);
                   st' = foldl commit_addBlock st blocks
               in (Inr (Blocks blocks), st', timers @ requests @ settled))))))"

text \<open>The action on the store as it is: \<^verbatim>\<open>knownBlocks\<close> is a plain object.\<close>

definition REST_FETCH_BLOCKS ::
  "'info RESTService \<Rightarrow> ('info, 'sub) NetworkState \<Rightarrow> nat list \<Rightarrow> (fetch_result, 'info, 'sub) run" where
  "REST_FETCH_BLOCKS R st blockHeights = REST_FETCH_BLOCKS_with object_find R st blockHeights"


section \<open>Sample collaborators and states\<close>

text \<open>
  Concrete values on which the theorems below are evaluated. \<open>sample_state\<close> is the
  initial state of lines 70-86 for a default node \<^verbatim>\<open>http://a:3000\<close>.
\<close>

definition sample_URLHelpers :: URLHelpers where
  "sample_URLHelpers =
     \<lparr>isValidURL = (\<lambda>u. take 7 u = ''http://''),
      formatUrl = (\<lambda>u. \<lparr>url = u\<rparr>),
      httpToWsUrl = (\<lambda>u. ''ws://'' @ drop 7 u)\<rparr>"

definition sample_state :: "(string, nat) NetworkState" where
  "sample_state =
     \<lparr>initialized = False,
      wsEndpoint = [],
      defaultPeer = \<lparr>url = ''http://a:3000''\<rparr>,
      currentPeer = \<lparr>url = ''http://a:3000''\<rparr>,
      explorerUrl = ''http://explorer'',
      networkType = MIJIN_TEST,
      generationHash = ''45'',
      isConnected = False,
      knownPeers = [Some ''http://a:3000''],
      currentHeight = 0,
      currentPeerInfo = None,
      knownBlocks = Map.empty,
      subscriptions = []\<rparr>"

definition sample_block :: "nat \<Rightarrow> BlockInfo" where
  "sample_block h = \<lparr>height = h, hash = ''block''\<rparr>"

text \<open>A node that answers every call; a page holds the block at its start.\<close>

definition healthy_node :: "string RESTService" where
  "healthy_node =
     \<lparr>create = (\<lambda>name u. None),
      getNetworkType = (\<lambda>u. Inr (Some TEST_NET)),
      getNodeInfo = (\<lambda>u. Inr ''node''),
      getBlockchainHeight = (\<lambda>u. Inr 1234),
      getBlocksByHeightWithLimit =
        (\<lambda>u s limit. Inr (case s of enat h \<Rightarrow> [sample_block h] | \<infinity> \<Rightarrow> []))\<rparr>"

text \<open>A node that answers the network type and fails every later call.\<close>

definition failing_node :: "string RESTService" where
  "failing_node =
     \<lparr>create = (\<lambda>name u. None),
      getNetworkType = (\<lambda>u. Inr (Some TEST_NET)),
      getNodeInfo = (\<lambda>u. Inl (Error ''timeout'')),
      getBlockchainHeight = (\<lambda>u. Inl (Error ''timeout'')),
      getBlocksByHeightWithLimit = (\<lambda>u s limit. Inl (Error ''timeout''))\<rparr>"


section \<open>Facts about the range planner\<close>

lemma Math_min_Min: "hs \<noteq> [] \<Longrightarrow> Math_min hs = enat (Min (set hs))"
proof (induction hs)
  case Nil
  then show ?case by simp
next
  case (Cons h hs)
  show ?case
  proof (cases "hs = []")
    case True
    then show ?thesis by simp
  next
    case False
    with Cons have "Math_min hs = enat (Min (set hs))" by simp
    with False show ?thesis by (simp add: min_def)
  qed
qed

lemma remaining_nat:
  "hs \<noteq> [] \<Longrightarrow> filter (\<lambda>h. enat h > Math_min hs + enat pageSize) hs
     = filter (\<lambda>h. h > Min (set hs) + 100) hs"
  by (simp add: Math_min_Min pageSize_def)

lemma remaining_shorter:
  assumes "filter (\<lambda>h. enat h > Math_min hs + enat pageSize) hs \<noteq> []"
  shows "length (filter (\<lambda>h. enat h > Math_min hs + enat pageSize) hs) < length hs"
proof -
  from assms have ne: "hs \<noteq> []" by auto
  then have "Min (set hs) \<in> set hs" by (intro Min_in) auto
  moreover have "\<not> Min (set hs) > Min (set hs) + 100" by simp
  ultimately have "length (filter (\<lambda>h. h > Min (set hs) + 100) hs) < length hs"
    by (rule length_filter_less)
  with ne show ?thesis by (simp add: remaining_nat)
qed

lemma getBlockRanges_unfold:
  assumes "hs \<noteq> []"
  shows "getBlockRanges hs =
           \<lparr>start = enat (Min (set hs))\<rparr> #
           (if filter (\<lambda>h. h > Min (set hs) + 100) hs = [] then []
            else getBlockRanges (filter (\<lambda>h. h > Min (set hs) + 100) hs))"
proof -
  have step: "getBlockRanges hs =
          \<lparr>start = Math_min hs\<rparr> #
          (if filter (\<lambda>h. enat h > Math_min hs + enat pageSize) hs = [] then []
           else getBlockRanges (filter (\<lambda>h. enat h > Math_min hs + enat pageSize) hs))"
    by (subst getBlockRanges.simps) (simp add: Let_def)
  have m: "Math_min hs = enat (Min (set hs))"
    using assms by (rule Math_min_Min)
  have r: "filter (\<lambda>h. enat h > enat (Min (set hs)) + enat pageSize) hs
             = filter (\<lambda>h. h > Min (set hs) + 100) hs"
    by (simp add: pageSize_def)
  from step show ?thesis
    unfolding m r .
qed

text \<open>
  On a list that is not empty the starts are strictly increasing and are heights of the
  list.
\<close>

lemma getBlockRanges_starts:
  "hs \<noteq> [] \<Longrightarrow>
     sorted_wrt (<) (map start (getBlockRanges hs)) \<and>
     set (map start (getBlockRanges hs)) \<subseteq> enat ` set hs"
proof (induction hs rule: length_induct)
  case (1 hs)
  let ?m = "Min (set hs)"
  let ?rest = "filter (\<lambda>h. h > ?m + 100) hs"
  from 1 have ne: "hs \<noteq> []" by simp
  then have m_in: "?m \<in> set hs" by (intro Min_in) auto
  show ?case
  proof (cases "?rest = []")
    case True
    with ne m_in show ?thesis by (simp add: getBlockRanges_unfold)
  next
    case False
    have "\<not> ?m > ?m + 100" by simp
    with m_in have "length ?rest < length hs" by (rule length_filter_less)
    with 1 False have ih: "sorted_wrt (<) (map start (getBlockRanges ?rest))"
      "set (map start (getBlockRanges ?rest)) \<subseteq> enat ` set ?rest"
      by blast+
    from ih(2) have gt: "\<forall>s \<in> set (map start (getBlockRanges ?rest)). enat ?m < s"
      by auto
    from ih(2) have sub: "set (map start (getBlockRanges ?rest)) \<subseteq> enat ` set hs"
      by auto
    have eq: "getBlockRanges hs = \<lparr>start = enat ?m\<rparr> # getBlockRanges ?rest"
      using ne False by (simp add: getBlockRanges_unfold)
    show ?thesis
      unfolding eq using ih(1) gt sub m_in by auto
  qed
qed

text \<open>
  C5. The starts of the planned ranges are strictly increasing and every start is one of
  the input heights. This holds on every list that is not empty
  (\<open>getBlockRanges_starts\<close>). On the empty list, which \<^verbatim>\<open>REST_FETCH_BLOCKS\<close> passes
  whenever no requested height is missing, the planner still emits one range: its start
  is \<^verbatim>\<open>Math.min()\<close>, that is \<^verbatim>\<open>Infinity\<close>, which is no height of the input.
\<close>

theorem getBlockRanges_empty_input:
  "getBlockRanges [] = [\<lparr>start = \<infinity>\<rparr>] \<and>
   \<not> set (map start (getBlockRanges [])) \<subseteq> enat ` set []"
  by (simp add: getBlockRanges.simps)

text \<open>
  C6. After the range that starts at the minimum \<open>m\<close> of the heights, the planner goes
  on with exactly the heights strictly greater than \<open>m + 100\<close> (a height equal to
  \<open>m + 100\<close> is dropped with the rest), and stops when there is none. So
  \<^verbatim>\<open>[50]\<close> gives one range at 50, \<^verbatim>\<open>[50, 200]\<close> gives ranges at 50 and 200, and
  \<^verbatim>\<open>[50, 140]\<close> gives one range at 50.
\<close>

theorem getBlockRanges_boundary:
  "(heights \<noteq> [] \<longrightarrow>
      getBlockRanges heights =
        \<lparr>start = enat (Min (set heights))\<rparr> #
        (if filter (\<lambda>h. h > Min (set heights) + 100) heights = [] then []
         else getBlockRanges (filter (\<lambda>h. h > Min (set heights) + 100) heights))) \<and>
   getBlockRanges [50] = [\<lparr>start = enat 50\<rparr>] \<and>
   getBlockRanges [50, 200] = [\<lparr>start = enat 50\<rparr>, \<lparr>start = enat 200\<rparr>] \<and>
   getBlockRanges [50, 140] = [\<lparr>start = enat 50\<rparr>]"
proof -
  have "getBlockRanges [50] = [\<lparr>start = enat 50\<rparr>]"
    by code_simp
  moreover have "getBlockRanges [50, 200] = [\<lparr>start = enat 50\<rparr>, \<lparr>start = enat 200\<rparr>]"
    by code_simp
  moreover have "getBlockRanges [50, 140] = [\<lparr>start = enat 50\<rparr>]"
    by code_simp
  ultimately show ?thesis
    using getBlockRanges_unfold [of heights] by blast
qed

theorem getBlockRanges_boundary_witness:
  "[50, 150, 151] \<noteq> ([] :: nat list) \<and>
   getBlockRanges [50, 150, 151] = \<lparr>start = enat 50\<rparr> # getBlockRanges [151]"
  using getBlockRanges_boundary [of "[50, 150, 151]"] by simp

text \<open>
  C10. The planner terminates on every list: every chain of its recursive calls is
  finite (\<open>getBlockRanges_dom\<close> is the accessible part of the call relation), because the
  list of a recursive call is strictly shorter: the minimum is a height of the list and
  is not among the heights kept.
\<close>

theorem getBlockRanges_terminates:
  "getBlockRanges_dom heights \<and>
   (filter (\<lambda>h. enat h > Math_min heights + enat pageSize) heights \<noteq> [] \<longrightarrow>
      length (filter (\<lambda>h. enat h > Math_min heights + enat pageSize) heights) < length heights \<and>
      Math_min heights \<in> enat ` set heights \<and>
      Math_min heights \<notin> enat ` set (filter (\<lambda>h. enat h > Math_min heights + enat pageSize) heights))"
proof
  show "getBlockRanges_dom heights"
  proof (induction heights rule: length_induct)
    case (1 hs)
    show ?case
    proof (rule getBlockRanges.domintros)
      assume "filter (\<lambda>h. enat h > Math_min hs + enat pageSize) hs \<noteq> []"
      then have "length (filter (\<lambda>h. enat h > Math_min hs + enat pageSize) hs) < length hs"
        by (rule remaining_shorter)
      with 1 show "getBlockRanges_dom (filter (\<lambda>h. enat h > Math_min hs + enat pageSize) hs)"
        by blast
    qed
  qed
next
  let ?rest = "filter (\<lambda>h. enat h > Math_min heights + enat pageSize) heights"
  show "?rest \<noteq> [] \<longrightarrow>
          length ?rest < length heights \<and> Math_min heights \<in> enat ` set heights \<and>
          Math_min heights \<notin> enat ` set ?rest"
  proof
    assume rest: "?rest \<noteq> []"
    then have ne: "heights \<noteq> []" by auto
    then have "Min (set heights) \<in> set heights" by (intro Min_in) auto
    with ne have mem: "Math_min heights \<in> enat ` set heights"
      by (simp add: Math_min_Min)
    have "Math_min heights \<notin> enat ` set ?rest"
      using ne by (auto simp: Math_min_Min)
    with rest mem show "length ?rest < length heights \<and> Math_min heights \<in> enat ` set heights \<and>
          Math_min heights \<notin> enat ` set ?rest"
      using remaining_shorter [of heights] by blast
  qed
qed

theorem getBlockRanges_terminates_witness:
  "filter (\<lambda>h. enat h > Math_min [50, 200] + enat pageSize) [50, 200] = [200] \<and>
   length [200 :: nat] < length [50, 200 :: nat] \<and>
   getBlockRanges_dom [50, 200]"
  using getBlockRanges_terminates [of "[50, 200]"] by (simp add: pageSize_def)


section \<open>Facts about the connection lifecycle\<close>

lemmas run_defs = outcome_of_def state_of_def effects_of_def

lemmas commit_defs =
  commit_setInitialized_def commit_setConnected_def commit_currentHeight_def
  commit_currentPeerInfo_def commit_currentPeer_def commit_networkType_def
  commit_setSubscriptions_def commit_addBlock_def commit_addPeer_def

lemmas initialize_defs =
  initialize_def Lock_initialize_def initialize_callback_def initialize_catch_def

lemmas sample_defs =
  sample_URLHelpers_def sample_state_def sample_block_def healthy_node_def failing_node_def

text \<open>
  C1, as stated: when one of the three transport calls fails, \<^verbatim>\<open>initialize\<close> leaves the
  state as it was before the call. It does not when the call that fails is the second or
  the third: lines 179-180 have then committed the peer, the websocket endpoint and
  \<^verbatim>\<open>isConnected = true\<close>. Here the node information cannot be read, and the state
  after the call is connected where the state before was not.
\<close>

theorem initialize_failure_mutates_state:
  "isl (getNodeInfo failing_node (url (currentPeer sample_state))) \<and>
   \<not> isConnected sample_state \<and>
   isConnected (state_of (initialize sample_URLHelpers failing_node sample_state)) \<and>
   state_of (initialize sample_URLHelpers failing_node sample_state) \<noteq> sample_state"
proof -
  have c: "isConnected (state_of (initialize sample_URLHelpers failing_node sample_state))"
    by (simp add: initialize_defs run_defs commit_defs sample_defs Let_def)
  have n: "\<not> isConnected sample_state"
    by (simp add: sample_defs)
  from c n have "state_of (initialize sample_URLHelpers failing_node sample_state) \<noteq> sample_state"
    by metis
  moreover have "isl (getNodeInfo failing_node (url (currentPeer sample_state)))"
    by (simp add: sample_defs)
  ultimately show ?thesis
    using c n by blast
qed

text \<open>
  C1, amended. When one of the three transport calls fails, \<^verbatim>\<open>initialize\<close> returns
  without raising, the last thing it does is log the error, and \<^verbatim>\<open>initialized\<close> keeps
  the value it had (so it stays false). When the services were created and the network
  type was read, the state is the state before the call with \<^verbatim>\<open>currentPeer\<close> formatted
  again from its own url, \<^verbatim>\<open>wsEndpoint\<close> derived from it and \<^verbatim>\<open>isConnected = true\<close>;
  otherwise it is the state before the call.
\<close>

theorem initialize_failure:
  assumes "isl (getNetworkType R (url (currentPeer st))) \<or>
           isl (getNodeInfo R (url (currentPeer st))) \<or>
           isl (getBlockchainHeight R (url (currentPeer st)))"
  shows "outcome_of (initialize U R st) = Inr () \<and>
         last (effects_of (initialize U R st)) = ConsoleLog ''Error in Store network/initialize: '' \<and>
         initialized (state_of (initialize U R st)) = initialized st \<and>
         state_of (initialize U R st) =
           (if create R ''NetworkHttp'' (url (currentPeer st)) = None \<and>
               create R ''ChainHttp'' (url (currentPeer st)) = None \<and>
               create R ''NodeHttp'' (url (currentPeer st)) = None \<and>
               \<not> isl (getNetworkType R (url (currentPeer st)))
            then st\<lparr>currentPeer := formatUrl U (url (currentPeer st)),
                    wsEndpoint := httpToWsUrl U (url (formatUrl U (url (currentPeer st)))),
                    isConnected := True\<rparr>
            else st)"
  using assms
  by (auto simp: initialize_defs run_defs commit_defs Let_def split: option.splits sum.splits)

theorem initialize_failure_witness:
  "isl (getBlockchainHeight failing_node (url (currentPeer sample_state))) \<and>
   outcome_of (initialize sample_URLHelpers failing_node sample_state) = Inr () \<and>
   \<not> initialized (state_of (initialize sample_URLHelpers failing_node sample_state)) \<and>
   state_of (initialize sample_URLHelpers failing_node sample_state) =
     sample_state\<lparr>currentPeer := \<lparr>url = ''http://a:3000''\<rparr>,
                  wsEndpoint := ''ws://a:3000'',
                  isConnected := True\<rparr>"
proof -
  have h: "isl (getNetworkType failing_node (url (currentPeer sample_state))) \<or>
           isl (getNodeInfo failing_node (url (currentPeer sample_state))) \<or>
           isl (getBlockchainHeight failing_node (url (currentPeer sample_state)))"
    by (simp add: sample_defs)
  show ?thesis
    using initialize_failure [OF h, of sample_URLHelpers]
    by (simp add: sample_defs)
qed

text \<open>
  C7. After a run of \<^verbatim>\<open>initialize\<close> in which nothing fails (the three services are
  created and the three transport calls answer), \<^verbatim>\<open>isConnected\<close> and \<^verbatim>\<open>initialized\<close>
  are true and \<^verbatim>\<open>currentHeight\<close> is the height that the node returned.
\<close>

theorem initialize_success:
  assumes "create R ''NetworkHttp'' (url (currentPeer st)) = None"
    and "create R ''ChainHttp'' (url (currentPeer st)) = None"
    and "create R ''NodeHttp'' (url (currentPeer st)) = None"
    and "getNetworkType R (url (currentPeer st)) = Inr t"
    and "getNodeInfo R (url (currentPeer st)) = Inr peerInfo"
    and "getBlockchainHeight R (url (currentPeer st)) = Inr h"
  shows "outcome_of (initialize U R st) = Inr () \<and>
         isConnected (state_of (initialize U R st)) \<and>
         initialized (state_of (initialize U R st)) \<and>
         currentHeight (state_of (initialize U R st)) = h"
  using assms
  by (simp add: initialize_defs run_defs commit_defs Let_def split: option.splits)

theorem initialize_success_witness:
  "getBlockchainHeight healthy_node (url (currentPeer sample_state)) = Inr 1234 \<and>
   isConnected (state_of (initialize sample_URLHelpers healthy_node sample_state)) \<and>
   initialized (state_of (initialize sample_URLHelpers healthy_node sample_state)) \<and>
   currentHeight (state_of (initialize sample_URLHelpers healthy_node sample_state)) = 1234"
proof -
  have c: "create healthy_node ''NetworkHttp'' (url (currentPeer sample_state)) = None"
    "create healthy_node ''ChainHttp'' (url (currentPeer sample_state)) = None"
    "create healthy_node ''NodeHttp'' (url (currentPeer sample_state)) = None"
    by (simp_all add: sample_defs)
  have t: "getNetworkType healthy_node (url (currentPeer sample_state)) = Inr (Some TEST_NET)"
    "getNodeInfo healthy_node (url (currentPeer sample_state)) = Inr ''node''"
    "getBlockchainHeight healthy_node (url (currentPeer sample_state)) = Inr 1234"
    by (simp_all add: sample_defs)
  show ?thesis
    using initialize_success [OF c t, of sample_URLHelpers] t(3) by blast
qed

text \<open>
  C8. For a url that \<^verbatim>\<open>URLHelpers.isValidURL\<close> rejects, \<^verbatim>\<open>SET_CURRENT_PEER\<close> throws
  the error of line 216 to its caller, before any commit: the state, and
  \<^verbatim>\<open>currentPeer\<close> in it, is the state before the call, and nothing else has been done.
\<close>

theorem SET_CURRENT_PEER_invalid_url:
  assumes "\<not> isValidURL U currentPeerUrl"
  shows "outcome_of (SET_CURRENT_PEER U R st currentPeerUrl) =
           Inl (Error (''Cannot change node. URL is not valid: '' @ currentPeerUrl)) \<and>
         state_of (SET_CURRENT_PEER U R st currentPeerUrl) = st \<and>
         currentPeer (state_of (SET_CURRENT_PEER U R st currentPeerUrl)) = currentPeer st \<and>
         effects_of (SET_CURRENT_PEER U R st currentPeerUrl) = []"
  using assms by (simp add: SET_CURRENT_PEER_def run_defs)

theorem SET_CURRENT_PEER_invalid_url_witness:
  "\<not> isValidURL sample_URLHelpers ''not a url'' \<and>
   outcome_of (SET_CURRENT_PEER sample_URLHelpers healthy_node sample_state ''not a url'') =
     Inl (Error ''Cannot change node. URL is not valid: not a url'') \<and>
   state_of (SET_CURRENT_PEER sample_URLHelpers healthy_node sample_state ''not a url'') =
     sample_state"
proof -
  have h: "\<not> isValidURL sample_URLHelpers ''not a url''"
    by (simp add: sample_URLHelpers_def)
  show ?thesis
    using h SET_CURRENT_PEER_invalid_url [OF h, of healthy_node sample_state] by simp
qed

text \<open>
  C9. Removing a url that is not a known peer changes nothing and does not throw. The
  code does throw: line 120 passes the url, a string, to \<^verbatim>\<open>findIndex\<close>, which wants a
  function, so the mutation, and with it the action, ends in a TypeError for every url
  and every list of known peers. The list is left as it was.
\<close>

theorem REMOVE_KNOWN_PEER_throws:
  "Some ''http://b:3000'' \<notin> set (knownPeers sample_state) \<and>
   outcome_of (REMOVE_KNOWN_PEER sample_state (JSString ''http://b:3000'')) =
     Inl (TypeError ''http://b:3000 is not a function'') \<and>
   outcome_of (REMOVE_KNOWN_PEER st (JSString u)) = Inl (TypeError (u @ '' is not a function'')) \<and>
   state_of (REMOVE_KNOWN_PEER st (JSString u)) = st"
  by (simp add: REMOVE_KNOWN_PEER_def commit_removePeer_def findIndex_def run_defs sample_state_def)


section \<open>Facts about fetching blocks\<close>

lemma filter_js_total: "filter_js (\<lambda>x. Inr (P x)) xs = Inr (filter P xs)"
  by (induction xs) simp_all

lemma map_js_total: "map_js (\<lambda>x. Inr (f x)) xs = Inr (map f xs)"
  by (induction xs) simp_all

lemma map_js_lookup_find: "map_js (lookup_find m) xs = Inr (map m xs)"
  by (induction xs) (simp_all add: lookup_find_def)

lemma filter_js_throws: "xs \<noteq> [] \<Longrightarrow> filter_js (\<lambda>x. Inl e) xs = Inl e"
  by (cases xs) simp_all

text \<open>
  On the store as it is, every call with a list of heights that is not empty throws at
  line 284, before a range is planned or a request is made.
\<close>

lemma REST_FETCH_BLOCKS_throws:
  "blockHeights \<noteq> [] \<Longrightarrow>
     REST_FETCH_BLOCKS R st blockHeights =
       (Inl (TypeError ''knownBlocks.find is not a function''), st, [])"
  by (simp add: REST_FETCH_BLOCKS_def REST_FETCH_BLOCKS_with_def object_find_def filter_js_throws)

text \<open>
  Whatever \<^verbatim>\<open>find\<close> does, a timer that the action sets has the empty payload: the ranges
  beyond the third are dispatched by nothing.
\<close>

lemma REST_FETCH_BLOCKS_deferred_payload:
  "SetInterval ms payload \<in> set (effects_of (REST_FETCH_BLOCKS_with find_m R st blockHeights)) \<Longrightarrow>
     ms = 3000 \<and> payload = []"
  by (auto simp: REST_FETCH_BLOCKS_with_def effects_of_def Let_def settle_page_def
      split: sum.splits option.splits if_splits)

text \<open>
  With a lookup for \<^verbatim>\<open>find\<close>, what the action returns is the cached blocks of the
  requested heights, whatever the node answers to the requests.
\<close>

lemma REST_FETCH_BLOCKS_lookup_returns_cached:
  "create R ''BlockHttp'' (url (currentPeer st)) = None \<Longrightarrow>
     outcome_of (REST_FETCH_BLOCKS_with lookup_find R st blockHeights) =
       Inr (Blocks (defined_values
              (map (knownBlocks st) (filter (\<lambda>h. knownBlocks st h \<noteq> None) blockHeights))))"
  by (simp add: REST_FETCH_BLOCKS_with_def lookup_find_def filter_js_total map_js_lookup_find
      outcome_of_def Let_def)

text \<open>
  C2. The call returns the cached blocks together with every block fetched for the
  planned ranges, and reports a failure when the request of a range throws. The code
  does neither.
  \<^item> Called with no heights, it plans the range that starts at \<^verbatim>\<open>Infinity\<close> and requests
    it. The node fails the request; the call returns the empty list of blocks, not
    \<^verbatim>\<open>false\<close>, and the failure is a rejection that nobody handles.
  \<^item> Called with the height 50, which is not cached, on a node that has the block, it
    throws a TypeError at line 284 and returns no block.
  \<^item> Were \<^verbatim>\<open>find\<close> a lookup, the call for the height 50 would request the range and
    return the empty list, without the block of the page, and cache nothing.
\<close>

theorem REST_FETCH_BLOCKS_ignores_requests:
  "REST_FETCH_BLOCKS failing_node sample_state [] =
     (Inr (Blocks []), sample_state,
      [Request ''http://a:3000'' \<infinity> 100, UnhandledRejection (Error ''timeout'')]) \<and>
   REST_FETCH_BLOCKS healthy_node sample_state [50] =
     (Inl (TypeError ''knownBlocks.find is not a function''), sample_state, []) \<and>
   getBlocksByHeightWithLimit healthy_node ''http://a:3000'' (enat 50) 100 = Inr [sample_block 50] \<and>
   REST_FETCH_BLOCKS_with lookup_find healthy_node sample_state [50] =
     (Inr (Blocks []), sample_state, [Request ''http://a:3000'' (enat 50) 100]) \<and>
   REST_FETCH_BLOCKS_with lookup_find failing_node sample_state [50] =
     (Inr (Blocks []), sample_state,
      [Request ''http://a:3000'' (enat 50) 100, UnhandledRejection (Error ''timeout'')])"
proof -
  have r50: "getBlockRanges [50] = [\<lparr>start = enat 50\<rparr>]"
    by code_simp
  have r0: "getBlockRanges [] = [\<lparr>start = \<infinity>\<rparr>]"
    by (simp add: getBlockRanges.simps)
  have a: "REST_FETCH_BLOCKS failing_node sample_state [] =
     (Inr (Blocks []), sample_state,
      [Request ''http://a:3000'' \<infinity> 100, UnhandledRejection (Error ''timeout'')])"
    by (simp add: REST_FETCH_BLOCKS_def REST_FETCH_BLOCKS_with_def r0 defined_values_def
        settle_page_def Let_def sample_state_def failing_node_def)
  have b: "REST_FETCH_BLOCKS healthy_node sample_state [50] =
     (Inl (TypeError ''knownBlocks.find is not a function''), sample_state, [])"
    by (simp add: REST_FETCH_BLOCKS_throws)
  have c: "getBlocksByHeightWithLimit healthy_node ''http://a:3000'' (enat 50) 100 = Inr [sample_block 50]"
    by (simp add: healthy_node_def)
  have d: "REST_FETCH_BLOCKS_with lookup_find healthy_node sample_state [50] =
     (Inr (Blocks []), sample_state, [Request ''http://a:3000'' (enat 50) 100])"
    by (simp add: REST_FETCH_BLOCKS_with_def lookup_find_def r50 defined_values_def
        settle_page_def Let_def sample_state_def healthy_node_def)
  have e: "REST_FETCH_BLOCKS_with lookup_find failing_node sample_state [50] =
     (Inr (Blocks []), sample_state,
      [Request ''http://a:3000'' (enat 50) 100, UnhandledRejection (Error ''timeout'')])"
    by (simp add: REST_FETCH_BLOCKS_with_def lookup_find_def r50 defined_values_def
        settle_page_def Let_def sample_state_def failing_node_def)
  from a b c d e show ?thesis
    by blast
qed

text \<open>
  C3. When more than three ranges are planned, the first three are requested at once and
  the others are scheduled for later. The heights 50, 200, 400 and 600 need four ranges.
  \<^item> On the store as it is, the call throws at line 284: no range is requested and
    nothing is scheduled.
  \<^item> Were \<^verbatim>\<open>find\<close> a lookup, the ranges at 50, 200 and 400 would be requested, and the
    timer set would dispatch the empty list: the range at 600 is requested by nothing.
\<close>

theorem REST_FETCH_BLOCKS_drops_fourth_range:
  "getBlockRanges [50, 200, 400, 600] =
     [\<lparr>start = enat 50\<rparr>, \<lparr>start = enat 200\<rparr>, \<lparr>start = enat 400\<rparr>, \<lparr>start = enat 600\<rparr>] \<and>
   REST_FETCH_BLOCKS healthy_node sample_state [50, 200, 400, 600] =
     (Inl (TypeError ''knownBlocks.find is not a function''), sample_state, []) \<and>
   effects_of (REST_FETCH_BLOCKS_with lookup_find healthy_node sample_state [50, 200, 400, 600]) =
     [SetInterval 3000 [],
      Request ''http://a:3000'' (enat 50) 100,
      Request ''http://a:3000'' (enat 200) 100,
      Request ''http://a:3000'' (enat 400) 100]"
proof -
  have r: "getBlockRanges [50, 200, 400, 600] =
     [\<lparr>start = enat 50\<rparr>, \<lparr>start = enat 200\<rparr>, \<lparr>start = enat 400\<rparr>, \<lparr>start = enat 600\<rparr>]"
    by code_simp
  have a: "REST_FETCH_BLOCKS healthy_node sample_state [50, 200, 400, 600] =
     (Inl (TypeError ''knownBlocks.find is not a function''), sample_state, [])"
    by (simp add: REST_FETCH_BLOCKS_throws)
  have b: "effects_of (REST_FETCH_BLOCKS_with lookup_find healthy_node sample_state [50, 200, 400, 600]) =
     [SetInterval 3000 [],
      Request ''http://a:3000'' (enat 50) 100,
      Request ''http://a:3000'' (enat 200) 100,
      Request ''http://a:3000'' (enat 400) 100]"
    by (simp add: REST_FETCH_BLOCKS_with_def lookup_find_def r defined_values_def effects_of_def
        settle_page_def Let_def sample_state_def healthy_node_def)
  from r a b show ?thesis
    by blast
qed

text \<open>
  C4. A height that is cached is served from the cache, without a request for it. With
  the block of height 7 cached, the call for that height makes no request, but it does
  not serve the block either: it throws at line 284, on the first height it looks up.
\<close>

theorem REST_FETCH_BLOCKS_cached_height_throws:
  "knownBlocks (commit_addBlock sample_state (sample_block 7)) 7 = Some (sample_block 7) \<and>
   REST_FETCH_BLOCKS healthy_node (commit_addBlock sample_state (sample_block 7)) [7] =
     (Inl (TypeError ''knownBlocks.find is not a function''),
      commit_addBlock sample_state (sample_block 7), [])"
  by (simp add: REST_FETCH_BLOCKS_throws commit_addBlock_def sample_block_def)

text \<open>
  Were \<^verbatim>\<open>find\<close> a lookup, the call for the cached height 7 would return its block from
  the cache and request no page for 7; it would still request the page at \<^verbatim>\<open>Infinity\<close>
  that the planner emits for no heights.
\<close>

lemma REST_FETCH_BLOCKS_lookup_cached_height:
  "REST_FETCH_BLOCKS_with lookup_find healthy_node (commit_addBlock sample_state (sample_block 7)) [7] =
     (Inr (Blocks [sample_block 7]), commit_addBlock sample_state (sample_block 7),
      [Request ''http://a:3000'' \<infinity> 100])"
proof -
  have r0: "getBlockRanges [] = [\<lparr>start = \<infinity>\<rparr>]"
    by (simp add: getBlockRanges.simps)
  show ?thesis
    by (simp add: REST_FETCH_BLOCKS_with_def lookup_find_def r0 defined_values_def
        settle_page_def Let_def sample_state_def healthy_node_def commit_addBlock_def sample_block_def)
qed

end
